theory Spec2Isabelle
  imports Main "HOL-Library.Sublist" "HOL-Library.Multiset"
begin

section \<open>JavaScript values used by the Cloudflare Access middleware\<close>

text \<open>
  The middleware is TypeScript. Three kinds of values reach its branches:
  header values and configuration strings (\<open>string | undefined\<close>, modelled as
  \<open>string option\<close>), the parsed body of the certificate endpoint (any JSON value, since
  \<open>response.json()\<close> is only cast to a key set), and the claims of a verified token.
  JavaScript's \<open>if (v)\<close> and \<open>!v\<close> test truthiness, not presence: the empty string,
  \<open>null\<close>, \<open>false\<close> and \<open>0\<close> are falsy. Numbers are kept as integers: the only
  property of a number the middleware can observe is whether it is zero.
\<close>

datatype json =
    JNull
  | JBool bool
  | JNumber int
  | JString string
  | JArray "json list"
  | JObject "(string \<times> json) list"

fun json_truthy :: "json \<Rightarrow> bool" where
  "json_truthy JNull = False"
| "json_truthy (JBool b) = b"
| "json_truthy (JNumber n) = (n \<noteq> 0)"
| "json_truthy (JString s) = (s \<noteq> [])"
| "json_truthy (JArray xs) = True"
| "json_truthy (JObject kvs) = True"

fun str_truthy :: "string option \<Rightarrow> bool" where
  "str_truthy None = False"
| "str_truthy (Some s) = (s \<noteq> [])"

section \<open>Configuration, environment and state\<close>

text \<open>
  \<open>Env\<close> comes from the core package; the middleware reads these seven settings.
\<close>

record env =
  CF_ACCESS_ENABLED :: bool
  CF_ACCESS_TEAM_DOMAIN :: "string option"
  CF_ACCESS_AUD :: "string option"
  CF_ACCESS_BYPASS_PATHS :: "string list option"
  CF_ACCESS_SERVICE_TOKEN_ID :: "string option"
  CF_ACCESS_SERVICE_TOKEN_SECRET :: "string option"
  LOG_SENSITIVE_INFO :: bool

text \<open>
  What \<open>fetch(certsUrl)\<close> followed by \<open>response.json()\<close> can do: the promise of
  \<open>fetch\<close> rejects (network error), or a response arrives with a status, a status
  text and a body; \<open>response.json()\<close> rejects when the body is not JSON
  (\<open>None\<close>). \<open>response.ok\<close> is true exactly for the statuses 200 to 299.
\<close>

datatype fetch_outcome =
    FetchRejected
  | FetchResponse nat string "json option"

definition response_ok :: "nat \<Rightarrow> bool" where
  "response_ok st = (200 \<le> st \<and> st \<le> 299)"

text \<open>
  The outside world of one request: the clock read by \<open>Date.now()\<close> (milliseconds),
  the network, and the \<open>jose\<close> library (\<open>createLocalJWKSet\<close> followed by
  \<open>jwtVerify\<close> on token, key set, issuer and audience), which either throws with a
  message or returns the payload of the token, a JSON object.
\<close>

record world =
  now :: int
  fetch :: "string \<Rightarrow> fetch_outcome"
  jwtVerify :: "string \<Rightarrow> json \<Rightarrow> string \<Rightarrow> string \<Rightarrow> string + (string \<times> json) list"

text \<open>The module-level cache: \<open>cachedJWKS\<close> (initially \<open>null\<close>) and \<open>jwksCacheTime\<close>.\<close>

record cache =
  cachedJWKS :: json
  jwksCacheTime :: int

definition initial_cache :: cache where
  "initial_cache = \<lparr>cachedJWKS = JNull, jwksCacheTime = 0\<rparr>"

definition JWKS_CACHE_TTL :: int where
  "JWKS_CACHE_TTL = 60 * 60 * 1000"

text \<open>What the functions throw.\<close>

datatype js_error =
    TeamDomainNotConfigured
  | TeamDomainAndAudNotConfigured
  | CertsFetchFailed nat string
  | NetworkFailure
  | BodyNotJson
  | JoseError string

text \<open>
  The identity object assigned to \<open>req.cfAccessIdentity\<close>; the constructor is its
  \<open>type\<close> field (\<open>'service_token'\<close> or \<open>'jwt'\<close>). A claim missing from the payload is
  \<open>undefined\<close> (\<open>None\<close>).
\<close>

datatype identity =
    ServiceTokenIdentity string
  | JwtIdentity "json option" "json option" "json option" "json option"

text \<open>
  The request: the fields the middleware touches. Any further attribute lives in the
  extension of the record. \<open>get\<close> is Express's header lookup \<open>req.get(name)\<close>.
\<close>

record request =
  path :: string
  get :: "string \<Rightarrow> string option"
  requestIp :: "string option"
  userIp :: "string option"
  cfAccessIdentity :: "identity option"

text \<open>
  Effects in the order they happen: each constructor is one call site of the source.
  A log entry carries its level, its message and the \<open>ip\<close> metadata when the call
  passes one.
\<close>

datatype log_level = Debug | Warn | Error

datatype event =
    EvShouldBypass string
  | EvGetHeader string
  | EvValidateServiceToken
  | EvSetIdentity identity
  | EvVerifyToken string
  | EvFetch string
  | EvJwtVerify string
  | EvLog log_level string "string option"

record response =
  status :: nat
  success :: bool
  error :: string
  detail :: string

datatype decision = Next | Respond response

record 'a result =
  decision :: decision
  req_out :: "'a request_scheme"
  cache_out :: cache
  trace :: "event list"

section \<open>The key set cache\<close>

definition certs_url :: "string \<Rightarrow> string" where
  "certs_url teamDomain = ''https://'' @ teamDomain @ ''.cloudflareaccess.com/cdn-cgi/access/certs''"

definition cache_fresh :: "world \<Rightarrow> cache \<Rightarrow> bool" where
  "cache_fresh w c = (json_truthy (cachedJWKS c) \<and> now w - jwksCacheTime c < JWKS_CACHE_TTL)"

definition getCloudflareJWKS ::
  "env \<Rightarrow> world \<Rightarrow> cache \<Rightarrow> (js_error + json) \<times> cache \<times> event list" where
  "getCloudflareJWKS e w c =
     (if cache_fresh w c then (Inr (cachedJWKS c), c, [])
      else
        (case CF_ACCESS_TEAM_DOMAIN e of
           None \<Rightarrow> (Inl TeamDomainNotConfigured, c, [])
         | Some teamDomain \<Rightarrow>
             if teamDomain = [] then (Inl TeamDomainNotConfigured, c, [])
             else
               (let certsUrl = certs_url teamDomain;
                    failed = EvLog Error ''Failed to fetch Cloudflare Access JWKS'' None
                in case fetch w certsUrl of
                     FetchRejected \<Rightarrow> (Inl NetworkFailure, c, [EvFetch certsUrl, failed])
                   | FetchResponse st txt body \<Rightarrow>
                       if \<not> response_ok st
                       then (Inl (CertsFetchFailed st txt), c, [EvFetch certsUrl, failed])
                       else
                         (case body of
                            None \<Rightarrow> (Inl BodyNotJson, c, [EvFetch certsUrl, failed])
                          | Some jwks \<Rightarrow>
                              (Inr jwks,
                               \<lparr>cachedJWKS = jwks, jwksCacheTime = now w\<rparr>,
                               [EvFetch certsUrl,
                                EvLog Debug ''Successfully fetched and cached Cloudflare Access JWKS'' None])))))"

section \<open>Token verification\<close>

definition issuer_of :: "string \<Rightarrow> string" where
  "issuer_of teamDomain = ''https://'' @ teamDomain @ ''.cloudflareaccess.com''"

definition verifyCloudflareAccessToken ::
  "env \<Rightarrow> world \<Rightarrow> cache \<Rightarrow> string \<Rightarrow> (js_error + (string \<times> json) list) \<times> cache \<times> event list" where
  "verifyCloudflareAccessToken e w c token =
     (if \<not> str_truthy (CF_ACCESS_TEAM_DOMAIN e) \<or> \<not> str_truthy (CF_ACCESS_AUD e)
      then (Inl TeamDomainAndAudNotConfigured, c, [])
      else
        (case (CF_ACCESS_TEAM_DOMAIN e, CF_ACCESS_AUD e) of
           (Some teamDomain, Some aud) \<Rightarrow>
             (case getCloudflareJWKS e w c of
                (Inl err, c', tr) \<Rightarrow> (Inl err, c', tr)
              | (Inr jwks, c', tr) \<Rightarrow>
                  (case jwtVerify w token jwks (issuer_of teamDomain) aud of
                     Inl msg \<Rightarrow> (Inl (JoseError msg), c', tr @ [EvJwtVerify token])
                   | Inr payload \<Rightarrow> (Inr payload, c', tr @ [EvJwtVerify token])))
         | _ \<Rightarrow> (Inl TeamDomainAndAudNotConfigured, c, [])))"

section \<open>Path bypass\<close>

text \<open>The \<open>for\<close> loop of \<open>shouldBypassAuth\<close>: the first rule that matches returns.\<close>

definition endsWith_star :: "string \<Rightarrow> bool" where
  "endsWith_star s = (s \<noteq> [] \<and> last s = CHR ''*'')"

fun bypass_loop :: "string \<Rightarrow> string list \<Rightarrow> bool" where
  "bypass_loop p [] = False"
| "bypass_loop p (bypassPath # rest) =
     (if p = bypassPath then True
      else if endsWith_star bypassPath \<and> prefix (butlast bypassPath) p then True
      else bypass_loop p rest)"

definition bypassPaths :: "env \<Rightarrow> string list" where
  "bypassPaths e = (case CF_ACCESS_BYPASS_PATHS e of None \<Rightarrow> [] | Some ps \<Rightarrow> ps)"

definition shouldBypassAuth :: "env \<Rightarrow> string \<Rightarrow> bool" where
  "shouldBypassAuth e p = bypass_loop p (bypassPaths e)"

section \<open>Service token\<close>

definition validateServiceToken :: "env \<Rightarrow> string option \<Rightarrow> string option \<Rightarrow> bool" where
  "validateServiceToken e clientId clientSecret =
     (if \<not> str_truthy (CF_ACCESS_SERVICE_TOKEN_ID e) \<or> \<not> str_truthy (CF_ACCESS_SERVICE_TOKEN_SECRET e)
      then False
      else clientId = CF_ACCESS_SERVICE_TOKEN_ID e \<and> clientSecret = CF_ACCESS_SERVICE_TOKEN_SECRET e)"

section \<open>The middleware\<close>

definition deny :: "string \<Rightarrow> decision" where
  "deny d = Respond \<lparr>status = 403, success = False, error = ''Access denied'', detail = d\<rparr>"

definition CLIENT_ID :: string where "CLIENT_ID = ''CF-Access-Client-Id''"
definition CLIENT_SECRET :: string where "CLIENT_SECRET = ''CF-Access-Client-Secret''"
definition JWT_ASSERTION :: string where "JWT_ASSERTION = ''CF-Access-JWT-Assertion''"

definition ip_of :: "'a request_scheme \<Rightarrow> string option" where
  "ip_of req = (if str_truthy (requestIp req) then requestIp req else userIp req)"

definition jwt_identity :: "(string \<times> json) list \<Rightarrow> identity" where
  "jwt_identity payload =
     JwtIdentity (map_of payload ''email'') (map_of payload ''sub'')
       (map_of payload ''iat'') (map_of payload ''exp'')"

definition cfAccessMiddleware :: "env \<Rightarrow> world \<Rightarrow> cache \<Rightarrow> 'a request_scheme \<Rightarrow> 'a result" where
  "cfAccessMiddleware e w c req =
     (if \<not> CF_ACCESS_ENABLED e
      then \<lparr>decision = Next, req_out = req, cache_out = c, trace = []\<rparr>
      else if shouldBypassAuth e (path req)
      then \<lparr>decision = Next, req_out = req, cache_out = c,
             trace = [EvShouldBypass (path req),
                      EvLog Debug (''Bypassing CF Access auth for path: '' @ path req) None]\<rparr>
      else
        (let cfAccessClientId = get req CLIENT_ID;
             cfAccessClientSecret = get req CLIENT_SECRET;
             tr0 = [EvShouldBypass (path req), EvGetHeader CLIENT_ID, EvGetHeader CLIENT_SECRET]
         in
           if str_truthy cfAccessClientId \<and> str_truthy cfAccessClientSecret
           then
             (if validateServiceToken e cfAccessClientId cfAccessClientSecret
              then
                (let ident = ServiceTokenIdentity (case cfAccessClientId of Some s \<Rightarrow> s | None \<Rightarrow> [])
                 in \<lparr>decision = Next,
                      req_out = req\<lparr>cfAccessIdentity := Some ident\<rparr>,
                      cache_out = c,
                      trace = tr0 @ [EvValidateServiceToken,
                                     EvLog Debug ''CF Access service token authentication successful'' None,
                                     EvSetIdentity ident]\<rparr>)
              else
                \<lparr>decision = deny ''Invalid service token credentials.'',
                  req_out = req, cache_out = c,
                  trace = tr0 @ [EvValidateServiceToken,
                                 EvLog Warn ''CF Access service token validation failed'' (ip_of req)]\<rparr>)
           else
             (let cfAccessJwt = get req JWT_ASSERTION;
                  tr1 = tr0 @ [EvGetHeader JWT_ASSERTION]
              in
                if \<not> str_truthy cfAccessJwt
                then
                  \<lparr>decision = deny ''This application is protected by Cloudflare Access. Please authenticate through Cloudflare Access.'',
                    req_out = req, cache_out = c,
                    trace = tr1 @ [EvLog Warn ''Missing authentication headers'' (ip_of req)]\<rparr>
                else
                  (let token = (case cfAccessJwt of Some s \<Rightarrow> s | None \<Rightarrow> [])
                   in case verifyCloudflareAccessToken e w c token of
                        (Inr payload, c', tr) \<Rightarrow>
                          (let ident = jwt_identity payload
                           in \<lparr>decision = Next,
                                req_out = req\<lparr>cfAccessIdentity := Some ident\<rparr>,
                                cache_out = c',
                                trace = tr1 @ [EvVerifyToken token] @ tr @ [EvSetIdentity ident]
                                  @ (if LOG_SENSITIVE_INFO e
                                     then [EvLog Debug ''CF Access JWT authentication successful'' None]
                                     else [])\<rparr>)
                      | (Inl err, c', tr) \<Rightarrow>
                          \<lparr>decision = deny ''Invalid or expired Cloudflare Access token.'',
                            req_out = req, cache_out = c',
                            trace = tr1 @ [EvVerifyToken token] @ tr
                              @ [EvLog Warn ''CF Access JWT verification failed'' (ip_of req)]\<rparr>))))"

section \<open>Observations on results\<close>

text \<open>
  The three ways the fetch of the key set fails (the promise rejects, the status is
  not 2xx, the body is not JSON), the errors they raise, the number of network
  calls in a trace, and the identity objects a trace assigns to the request.
\<close>

fun fetch_fails :: "fetch_outcome \<Rightarrow> bool" where
  "fetch_fails FetchRejected = True"
| "fetch_fails (FetchResponse st txt body) = (\<not> response_ok st \<or> body = None)"

fun is_fetch_error :: "js_error \<Rightarrow> bool" where
  "is_fetch_error (CertsFetchFailed st txt) = True"
| "is_fetch_error NetworkFailure = True"
| "is_fetch_error BodyNotJson = True"
| "is_fetch_error err = False"

fun fetch_count :: "event list \<Rightarrow> nat" where
  "fetch_count [] = 0"
| "fetch_count (EvFetch url # evs) = Suc (fetch_count evs)"
| "fetch_count (ev # evs) = fetch_count evs"

fun attached :: "event list \<Rightarrow> identity list" where
  "attached [] = []"
| "attached (EvSetIdentity i # evs) = i # attached evs"
| "attached (ev # evs) = attached evs"

text \<open>
  Successive calls of \<open>getCloudflareJWKS\<close>, one per world, each starting from the
  cache the previous call left.
\<close>

fun successive_calls :: "env \<Rightarrow> world list \<Rightarrow> cache \<Rightarrow> (js_error + json) list \<times> cache \<times> event list" where
  "successive_calls e [] c = ([], c, [])"
| "successive_calls e (w # ws) c =
     (case getCloudflareJWKS e w c of
        (r, c', tr) \<Rightarrow>
          (case successive_calls e ws c' of
             (rs, c'', trs) \<Rightarrow> (r # rs, c'', tr @ trs)))"

text \<open>
  The events of the assertion path proper: the call of
  \<open>verifyCloudflareAccessToken\<close>, the network call and the call of \<open>jose\<close>.
\<close>

fun verification_event :: "event \<Rightarrow> bool" where
  "verification_event (EvVerifyToken t) = True"
| "verification_event (EvFetch url) = True"
| "verification_event (EvJwtVerify t) = True"
| "verification_event ev = False"

text \<open>
  The path matcher in the words of its specification: a rule matches a path that is
  equal to it, and a rule that ends in the marker \<open>*\<close> matches every path that starts
  with the rule without the marker.
\<close>

definition spec_rule_matches :: "string \<Rightarrow> string \<Rightarrow> bool" where
  "spec_rule_matches p r = (p = r \<or> (\<exists>q. r = q @ ''*'' \<and> (\<exists>s. p = q @ s)))"

section \<open>Example configuration, world and requests\<close>

definition ex_jwks :: json where
  "ex_jwks = JObject [(''keys'', JArray [JObject [(''kid'', JString ''k1'')]])]"

definition ex_payload :: "(string \<times> json) list" where
  "ex_payload = [(''email'', JString ''a@example.org''), (''sub'', JString ''u1''),
                 (''iat'', JNumber 100), (''exp'', JNumber 200)]"

definition ex_env :: env where
  "ex_env = \<lparr>CF_ACCESS_ENABLED = True, CF_ACCESS_TEAM_DOMAIN = Some ''team'',
     CF_ACCESS_AUD = Some ''aud-tag'', CF_ACCESS_BYPASS_PATHS = Some [''/health/*''],
     CF_ACCESS_SERVICE_TOKEN_ID = Some ''svc-id'',
     CF_ACCESS_SERVICE_TOKEN_SECRET = Some ''svc-secret'', LOG_SENSITIVE_INFO = False\<rparr>"

definition ex_world :: "int \<Rightarrow> world" where
  "ex_world t =
     \<lparr>now = t,
      fetch = (\<lambda>url. if url = certs_url ''team'' then FetchResponse 200 ''OK'' (Some ex_jwks)
                      else FetchRejected),
      jwtVerify = (\<lambda>token jwks iss aud.
         if token = ''good'' \<and> jwks = ex_jwks \<and> iss = issuer_of ''team'' \<and> aud = ''aud-tag''
         then Inr ex_payload else Inl ''signature verification failed'')\<rparr>"

definition down_world :: "int \<Rightarrow> world" where
  "down_world t = (ex_world t)\<lparr>fetch := (\<lambda>url. FetchResponse 503 ''Service Unavailable'' None)\<rparr>"

text \<open>
  A world whose certificate endpoint answers 200 with a JSON body of one's choice,
  for instance an error object or \<open>null\<close> instead of a key set.
\<close>

definition answering_world :: "int \<Rightarrow> json \<Rightarrow> world" where
  "answering_world t body = (ex_world t)\<lparr>fetch := (\<lambda>url. FetchResponse 200 ''OK'' (Some body))\<rparr>"

definition ex_req :: "string \<Rightarrow> string option \<Rightarrow> string option \<Rightarrow> string option \<Rightarrow> request" where
  "ex_req p cid cs jwt =
     \<lparr>path = p,
      get = (\<lambda>h. if h = CLIENT_ID then cid else if h = CLIENT_SECRET then cs
                  else if h = JWT_ASSERTION then jwt else None),
      requestIp = None, userIp = Some ''203.0.113.7'', cfAccessIdentity = None\<rparr>"

text \<open>
  A request with the same path and credential headers as
  \<open>ex_req ''/secure'' None None (Some ''good'')\<close>, and different in a further header,
  in the logged address and in a stale identity field.
\<close>

definition noisy_req :: request where
  "noisy_req =
     \<lparr>path = ''/secure'',
      get = (\<lambda>h. if h = JWT_ASSERTION then Some ''good''
                  else if h = ''User-Agent'' then Some ''curl/8.0'' else None),
      requestIp = Some ''198.51.100.1'', userIp = None,
      cfAccessIdentity = Some (ServiceTokenIdentity ''forged'')\<rparr>"

section \<open>Auxiliary lemmas\<close>

lemma wildcard_iff:
  "(endsWith_star r \<and> prefix (butlast r) p) \<longleftrightarrow> (\<exists>q. r = q @ ''*'' \<and> (\<exists>s. p = q @ s))"
  unfolding endsWith_star_def
  by (cases r rule: rev_cases) (auto simp: prefix_def)

lemma bypass_loop_iff:
  "bypass_loop p rs \<longleftrightarrow> (\<exists>r\<in>set rs. p = r \<or> (endsWith_star r \<and> prefix (butlast r) p))"
  by (induction rs) auto

lemma jwks_hit: "cache_fresh w c \<Longrightarrow> getCloudflareJWKS e w c = (Inr (cachedJWKS c), c, [])"
  by (simp add: getCloudflareJWKS_def)

lemma jwks_miss_count:
  "\<not> cache_fresh w c \<Longrightarrow> str_truthy (CF_ACCESS_TEAM_DOMAIN e) \<Longrightarrow>
   fetch_count (snd (snd (getCloudflareJWKS e w c))) = 1"
  by (cases "CF_ACCESS_TEAM_DOMAIN e")
     (auto simp: getCloudflareJWKS_def Let_def split: fetch_outcome.splits option.splits)

lemma jwks_error_keeps_cache:
  "getCloudflareJWKS e w c = (Inl err, c', tr) \<Longrightarrow> c' = c"
  by (auto simp: getCloudflareJWKS_def Let_def split: if_splits fetch_outcome.splits option.splits)

lemma jwks_fetch_failure:
  "\<not> cache_fresh w c \<Longrightarrow> CF_ACCESS_TEAM_DOMAIN e = Some td \<Longrightarrow> td \<noteq> [] \<Longrightarrow>
   fetch_fails (fetch w (certs_url td)) \<Longrightarrow>
   \<exists>err. is_fetch_error err \<and>
     getCloudflareJWKS e w c =
       (Inl err, c, [EvFetch (certs_url td), EvLog Error ''Failed to fetch Cloudflare Access JWKS'' None])"
  by (auto simp: getCloudflareJWKS_def Let_def split: fetch_outcome.splits option.splits)

lemma jwks_success_from_network:
  "\<not> cache_fresh w c \<Longrightarrow> getCloudflareJWKS e w c = (Inr k, c', tr) \<Longrightarrow>
   \<exists>td st txt. CF_ACCESS_TEAM_DOMAIN e = Some td \<and> td \<noteq> []
      \<and> fetch w (certs_url td) = FetchResponse st txt (Some k)
      \<and> response_ok st \<and> c' = \<lparr>cachedJWKS = k, jwksCacheTime = now w\<rparr>"
  by (auto simp: getCloudflareJWKS_def Let_def split: if_splits fetch_outcome.splits option.splits)

lemma jwks_trace_attached: "attached (snd (snd (getCloudflareJWKS e w c))) = []"
  by (auto simp: getCloudflareJWKS_def Let_def split: if_splits fetch_outcome.splits option.splits)

lemma attached_append: "attached (xs @ ys) = attached xs @ attached ys"
  by (induction xs rule: attached.induct) auto

lemma verify_trace_attached: "attached (snd (snd (verifyCloudflareAccessToken e w c t))) = []"
  using jwks_trace_attached [of e w c]
  by (auto simp: verifyCloudflareAccessToken_def attached_append split: option.splits prod.splits sum.splits)


lemma mw_disabled:
  "\<not> CF_ACCESS_ENABLED e \<Longrightarrow>
   cfAccessMiddleware e w c req = \<lparr>decision = Next, req_out = req, cache_out = c, trace = []\<rparr>"
  by (simp add: cfAccessMiddleware_def)

lemma mw_bypassed:
  "CF_ACCESS_ENABLED e \<Longrightarrow> shouldBypassAuth e (path req) \<Longrightarrow>
   cfAccessMiddleware e w c req =
     \<lparr>decision = Next, req_out = req, cache_out = c,
      trace = [EvShouldBypass (path req),
               EvLog Debug (''Bypassing CF Access auth for path: '' @ path req) None]\<rparr>"
  by (simp add: cfAccessMiddleware_def)

lemma mw_service_ok:
  "CF_ACCESS_ENABLED e \<Longrightarrow> \<not> shouldBypassAuth e (path req) \<Longrightarrow>
   get req CLIENT_ID = Some cid \<Longrightarrow> cid \<noteq> [] \<Longrightarrow>
   get req CLIENT_SECRET = Some cs \<Longrightarrow> cs \<noteq> [] \<Longrightarrow>
   validateServiceToken e (Some cid) (Some cs) \<Longrightarrow>
   cfAccessMiddleware e w c req =
     \<lparr>decision = Next, req_out = req\<lparr>cfAccessIdentity := Some (ServiceTokenIdentity cid)\<rparr>,
      cache_out = c,
      trace = [EvShouldBypass (path req), EvGetHeader CLIENT_ID, EvGetHeader CLIENT_SECRET,
               EvValidateServiceToken,
               EvLog Debug ''CF Access service token authentication successful'' None,
               EvSetIdentity (ServiceTokenIdentity cid)]\<rparr>"
  by (simp add: cfAccessMiddleware_def Let_def)

lemma mw_service_bad:
  "CF_ACCESS_ENABLED e \<Longrightarrow> \<not> shouldBypassAuth e (path req) \<Longrightarrow>
   get req CLIENT_ID = Some cid \<Longrightarrow> cid \<noteq> [] \<Longrightarrow>
   get req CLIENT_SECRET = Some cs \<Longrightarrow> cs \<noteq> [] \<Longrightarrow>
   \<not> validateServiceToken e (Some cid) (Some cs) \<Longrightarrow>
   cfAccessMiddleware e w c req =
     \<lparr>decision = deny ''Invalid service token credentials.'', req_out = req, cache_out = c,
      trace = [EvShouldBypass (path req), EvGetHeader CLIENT_ID, EvGetHeader CLIENT_SECRET,
               EvValidateServiceToken,
               EvLog Warn ''CF Access service token validation failed'' (ip_of req)]\<rparr>"
  by (simp add: cfAccessMiddleware_def Let_def)

lemma mw_missing:
  "CF_ACCESS_ENABLED e \<Longrightarrow> \<not> shouldBypassAuth e (path req) \<Longrightarrow>
   \<not> (str_truthy (get req CLIENT_ID) \<and> str_truthy (get req CLIENT_SECRET)) \<Longrightarrow>
   \<not> str_truthy (get req JWT_ASSERTION) \<Longrightarrow>
   cfAccessMiddleware e w c req =
     \<lparr>decision = deny ''This application is protected by Cloudflare Access. Please authenticate through Cloudflare Access.'',
      req_out = req, cache_out = c,
      trace = [EvShouldBypass (path req), EvGetHeader CLIENT_ID, EvGetHeader CLIENT_SECRET,
               EvGetHeader JWT_ASSERTION,
               EvLog Warn ''Missing authentication headers'' (ip_of req)]\<rparr>"
  by (auto simp add: cfAccessMiddleware_def Let_def)

lemma mw_jwt_ok:
  "CF_ACCESS_ENABLED e \<Longrightarrow> \<not> shouldBypassAuth e (path req) \<Longrightarrow>
   \<not> (str_truthy (get req CLIENT_ID) \<and> str_truthy (get req CLIENT_SECRET)) \<Longrightarrow>
   get req JWT_ASSERTION = Some token \<Longrightarrow> token \<noteq> [] \<Longrightarrow>
   verifyCloudflareAccessToken e w c token = (Inr payload, c', tr) \<Longrightarrow>
   cfAccessMiddleware e w c req =
     \<lparr>decision = Next, req_out = req\<lparr>cfAccessIdentity := Some (jwt_identity payload)\<rparr>,
      cache_out = c',
      trace = [EvShouldBypass (path req), EvGetHeader CLIENT_ID, EvGetHeader CLIENT_SECRET,
               EvGetHeader JWT_ASSERTION, EvVerifyToken token] @ tr
              @ [EvSetIdentity (jwt_identity payload)]
              @ (if LOG_SENSITIVE_INFO e
                 then [EvLog Debug ''CF Access JWT authentication successful'' None] else [])\<rparr>"
  by (auto simp add: cfAccessMiddleware_def Let_def)

lemma mw_jwt_bad:
  "CF_ACCESS_ENABLED e \<Longrightarrow> \<not> shouldBypassAuth e (path req) \<Longrightarrow>
   \<not> (str_truthy (get req CLIENT_ID) \<and> str_truthy (get req CLIENT_SECRET)) \<Longrightarrow>
   get req JWT_ASSERTION = Some token \<Longrightarrow> token \<noteq> [] \<Longrightarrow>
   verifyCloudflareAccessToken e w c token = (Inl err, c', tr) \<Longrightarrow>
   cfAccessMiddleware e w c req =
     \<lparr>decision = deny ''Invalid or expired Cloudflare Access token.'', req_out = req,
      cache_out = c',
      trace = [EvShouldBypass (path req), EvGetHeader CLIENT_ID, EvGetHeader CLIENT_SECRET,
               EvGetHeader JWT_ASSERTION, EvVerifyToken token] @ tr
              @ [EvLog Warn ''CF Access JWT verification failed'' (ip_of req)]\<rparr>"
  by (auto simp add: cfAccessMiddleware_def Let_def)

lemma str_truthy_iff: "str_truthy v \<longleftrightarrow> (\<exists>s. v = Some s \<and> s \<noteq> [])"
  by (cases v) auto

lemma validate_false:
  "CF_ACCESS_SERVICE_TOKEN_ID e \<noteq> Some cid \<or> CF_ACCESS_SERVICE_TOKEN_SECRET e \<noteq> Some cs \<Longrightarrow>
   \<not> validateServiceToken e (Some cid) (Some cs)"
  by (auto simp: validateServiceToken_def)

lemma hdr_neq: "CLIENT_ID \<noteq> JWT_ASSERTION" "CLIENT_SECRET \<noteq> JWT_ASSERTION" "CLIENT_ID \<noteq> CLIENT_SECRET"
  by (simp_all add: CLIENT_ID_def CLIENT_SECRET_def JWT_ASSERTION_def)

lemma mw_cases:
  obtains (disabled) "\<not> CF_ACCESS_ENABLED e"
  | (bypassed) "CF_ACCESS_ENABLED e" "shouldBypassAuth e (path req)"
  | (service_ok) cid cs where "CF_ACCESS_ENABLED e" "\<not> shouldBypassAuth e (path req)"
      "get req CLIENT_ID = Some cid" "cid \<noteq> []" "get req CLIENT_SECRET = Some cs" "cs \<noteq> []"
      "validateServiceToken e (Some cid) (Some cs)"
  | (service_bad) cid cs where "CF_ACCESS_ENABLED e" "\<not> shouldBypassAuth e (path req)"
      "get req CLIENT_ID = Some cid" "cid \<noteq> []" "get req CLIENT_SECRET = Some cs" "cs \<noteq> []"
      "\<not> validateServiceToken e (Some cid) (Some cs)"
  | (missing) "CF_ACCESS_ENABLED e" "\<not> shouldBypassAuth e (path req)"
      "\<not> (str_truthy (get req CLIENT_ID) \<and> str_truthy (get req CLIENT_SECRET))"
      "\<not> str_truthy (get req JWT_ASSERTION)"
  | (jwt_ok) token payload c' tr where "CF_ACCESS_ENABLED e" "\<not> shouldBypassAuth e (path req)"
      "\<not> (str_truthy (get req CLIENT_ID) \<and> str_truthy (get req CLIENT_SECRET))"
      "get req JWT_ASSERTION = Some token" "token \<noteq> []"
      "verifyCloudflareAccessToken e w c token = (Inr payload, c', tr)"
  | (jwt_bad) token err c' tr where "CF_ACCESS_ENABLED e" "\<not> shouldBypassAuth e (path req)"
      "\<not> (str_truthy (get req CLIENT_ID) \<and> str_truthy (get req CLIENT_SECRET))"
      "get req JWT_ASSERTION = Some token" "token \<noteq> []"
      "verifyCloudflareAccessToken e w c token = (Inl err, c', tr)"
proof -
  consider "\<not> CF_ACCESS_ENABLED e"
    | "CF_ACCESS_ENABLED e" "shouldBypassAuth e (path req)"
    | "CF_ACCESS_ENABLED e" "\<not> shouldBypassAuth e (path req)"
      "str_truthy (get req CLIENT_ID) \<and> str_truthy (get req CLIENT_SECRET)"
    | "CF_ACCESS_ENABLED e" "\<not> shouldBypassAuth e (path req)"
      "\<not> (str_truthy (get req CLIENT_ID) \<and> str_truthy (get req CLIENT_SECRET))"
      "\<not> str_truthy (get req JWT_ASSERTION)"
    | "CF_ACCESS_ENABLED e" "\<not> shouldBypassAuth e (path req)"
      "\<not> (str_truthy (get req CLIENT_ID) \<and> str_truthy (get req CLIENT_SECRET))"
      "str_truthy (get req JWT_ASSERTION)"
    by blast
  then show thesis
  proof cases
    case 1 then show ?thesis by (rule disabled)
  next
    case 2 then show ?thesis by (rule bypassed)
  next
    case 3
    then obtain cid cs where h: "get req CLIENT_ID = Some cid" "cid \<noteq> []"
      "get req CLIENT_SECRET = Some cs" "cs \<noteq> []"
      by (auto simp: str_truthy_iff)
    show ?thesis
    proof (cases "validateServiceToken e (Some cid) (Some cs)")
      case True with 3 h show ?thesis by (blast intro: service_ok)
    next
      case False with 3 h show ?thesis by (blast intro: service_bad)
    qed
  next
    case 4 then show ?thesis by (rule missing)
  next
    case 5
    then obtain token where h: "get req JWT_ASSERTION = Some token" "token \<noteq> []"
      by (auto simp: str_truthy_iff)
    obtain res c' tr where v: "verifyCloudflareAccessToken e w c token = (res, c', tr)"
      by (cases "verifyCloudflareAccessToken e w c token") auto
    show ?thesis
    proof (cases res)
      case (Inl err) with 5 h v show ?thesis by (blast intro: jwt_bad)
    next
      case (Inr payload) with 5 h v show ?thesis by (blast intro: jwt_ok)
    qed
  qed
qed

lemma verify_success:
  assumes "verifyCloudflareAccessToken e w c t = (Inr payload, c', tr)"
  shows "\<exists>td aud jwks tr0. CF_ACCESS_TEAM_DOMAIN e = Some td \<and> td \<noteq> []
           \<and> CF_ACCESS_AUD e = Some aud \<and> aud \<noteq> []
           \<and> getCloudflareJWKS e w c = (Inr jwks, c', tr0)
           \<and> jwtVerify w t jwks (issuer_of td) aud = Inr payload"
  using assms
  by (auto simp: verifyCloudflareAccessToken_def str_truthy_iff
      split: if_splits option.splits prod.splits sum.splits)

lemma assertion_path_outcome:
  assumes "CF_ACCESS_ENABLED e" and "\<not> shouldBypassAuth e (path req)"
    and "\<not> (str_truthy (get req CLIENT_ID) \<and> str_truthy (get req CLIENT_SECRET))"
  shows "(\<exists>d. decision (cfAccessMiddleware e w c req) = deny d
            \<and> req_out (cfAccessMiddleware e w c req) = req
            \<and> attached (trace (cfAccessMiddleware e w c req)) = [])
       \<or> (decision (cfAccessMiddleware e w c req) = Next
            \<and> (\<exists>token payload c' tr. get req JWT_ASSERTION = Some token \<and> token \<noteq> []
                 \<and> verifyCloudflareAccessToken e w c token = (Inr payload, c', tr)))"
proof (cases rule: mw_cases [where e=e and req=req and w=w and c=c])
  case missing
  then show ?thesis by (auto simp: mw_missing)
next
  case (jwt_ok token payload c' tr)
  then show ?thesis by (auto simp: mw_jwt_ok)
next
  case (jwt_bad token err c' tr)
  moreover have "attached tr = []"
    using verify_trace_attached [of e w c token] jwt_bad(6) by simp
  ultimately show ?thesis by (auto simp: mw_jwt_bad attached_append)
qed (use assms in auto)

lemma deny_neq_Next: "deny d \<noteq> Next"
  by (simp add: deny_def)

lemma successive_hits:
  "json_truthy (cachedJWKS c) \<Longrightarrow> \<forall>v\<in>set ws. now v - jwksCacheTime c < JWKS_CACHE_TTL \<Longrightarrow>
   successive_calls e ws c = (map (\<lambda>v. Inr (cachedJWKS c)) ws, c, [])"
proof (induction ws)
  case Nil
  then show ?case by simp
next
  case (Cons v ws)
  then have "cache_fresh v c" by (simp add: cache_fresh_def)
  then have "getCloudflareJWKS e v c = (Inr (cachedJWKS c), c, [])" by (rule jwks_hit)
  with Cons show ?case by simp
qed

lemma jwks_fetched:
  assumes "getCloudflareJWKS e w c = (Inr k, c', tr)" and "fetch_count tr = 1"
  shows "c' = \<lparr>cachedJWKS = k, jwksCacheTime = now w\<rparr> \<and> str_truthy (CF_ACCESS_TEAM_DOMAIN e)"
proof -
  have "\<not> cache_fresh w c"
  proof
    assume "cache_fresh w c"
    then have "getCloudflareJWKS e w c = (Inr (cachedJWKS c), c, [])" by (rule jwks_hit)
    with assms show False by simp
  qed
  from jwks_success_from_network [OF this assms(1)] show ?thesis
    by auto
qed

lemmas ex_defs = ex_env_def ex_world_def ex_req_def ex_jwks_def ex_payload_def
  CLIENT_ID_def CLIENT_SECRET_def JWT_ASSERTION_def shouldBypassAuth_def bypassPaths_def
  endsWith_star_def

lemma ex_not_bypassed: "\<not> shouldBypassAuth ex_env ''/secure''"
  by (simp add: ex_defs)

lemma ex_verify_good:
  "verifyCloudflareAccessToken ex_env (ex_world 0) initial_cache ''good'' =
     (Inr ex_payload, \<lparr>cachedJWKS = ex_jwks, jwksCacheTime = 0\<rparr>,
      [EvFetch (certs_url ''team''),
       EvLog Debug ''Successfully fetched and cached Cloudflare Access JWKS'' None,
       EvJwtVerify ''good''])"
  by (simp add: verifyCloudflareAccessToken_def getCloudflareJWKS_def cache_fresh_def
      initial_cache_def ex_env_def ex_world_def response_ok_def)

lemma ex_service_ok:
  "cfAccessMiddleware ex_env (ex_world 0) initial_cache
     (ex_req ''/secure'' (Some ''svc-id'') (Some ''svc-secret'') None)
   = \<lparr>decision = Next,
      req_out = (ex_req ''/secure'' (Some ''svc-id'') (Some ''svc-secret'') None)
                  \<lparr>cfAccessIdentity := Some (ServiceTokenIdentity ''svc-id'')\<rparr>,
      cache_out = initial_cache,
      trace = [EvShouldBypass (path (ex_req ''/secure'' (Some ''svc-id'') (Some ''svc-secret'') None)),
               EvGetHeader CLIENT_ID, EvGetHeader CLIENT_SECRET,
               EvValidateServiceToken,
               EvLog Debug ''CF Access service token authentication successful'' None,
               EvSetIdentity (ServiceTokenIdentity ''svc-id'')]\<rparr>"
proof -
  let ?r = "ex_req ''/secure'' (Some ''svc-id'') (Some ''svc-secret'') None"
  have 1: "CF_ACCESS_ENABLED ex_env" by (simp add: ex_env_def)
  have 2: "\<not> shouldBypassAuth ex_env (path ?r)" using ex_not_bypassed by (simp add: ex_req_def)
  have 3: "get ?r CLIENT_ID = Some ''svc-id''" by (simp add: ex_req_def)
  have 4: "get ?r CLIENT_SECRET = Some ''svc-secret''"
    by (simp add: ex_req_def hdr_neq [symmetric])
  have 5: "validateServiceToken ex_env (Some ''svc-id'') (Some ''svc-secret'')"
    by (simp add: validateServiceToken_def ex_env_def)
  show ?thesis by (rule mw_service_ok [OF 1 2 3 _ 4 _ 5]) simp_all
qed

lemma ex_first_fetch:
  "getCloudflareJWKS ex_env (ex_world 1000) initial_cache =
     (Inr ex_jwks, \<lparr>cachedJWKS = ex_jwks, jwksCacheTime = 1000\<rparr>,
      [EvFetch (certs_url ''team''),
       EvLog Debug ''Successfully fetched and cached Cloudflare Access JWKS'' None])"
  by (simp add: getCloudflareJWKS_def cache_fresh_def initial_cache_def ex_env_def ex_world_def
      response_ok_def)


section \<open>The path matcher\<close>

text \<open>
  Claim C5. \<open>shouldBypassAuth\<close> returns true exactly when some configured rule matches
  the path, where a rule matches by string equality or, when it ends in \<open>*\<close>, when the
  path starts with the rule without that last character. The rule \<open>/health/*\<close> matches
  \<open>/health/\<close> and \<open>/health/live\<close> and does not match \<open>/healthy\<close>; an empty list of
  rules (also an unset one) bypasses nothing.
\<close>

theorem shouldBypassAuth_matches_spec:
  "(shouldBypassAuth e p \<longleftrightarrow> (\<exists>r\<in>set (bypassPaths e). spec_rule_matches p r))
   \<and> bypass_loop ''/health/'' [''/health/*'']
   \<and> bypass_loop ''/health/live'' [''/health/*'']
   \<and> \<not> bypass_loop ''/healthy'' [''/health/*'']
   \<and> \<not> bypass_loop p []
   \<and> (CF_ACCESS_BYPASS_PATHS e = None \<or> CF_ACCESS_BYPASS_PATHS e = Some []
        \<longrightarrow> \<not> shouldBypassAuth e p)"
proof -
  have "bypass_loop p rs \<longleftrightarrow> (\<exists>r\<in>set rs. spec_rule_matches p r)" for rs
    unfolding bypass_loop_iff spec_rule_matches_def wildcard_iff ..
  then have "shouldBypassAuth e p \<longleftrightarrow> (\<exists>r\<in>set (bypassPaths e). spec_rule_matches p r)"
    by (simp add: shouldBypassAuth_def)
  moreover have "bypass_loop ''/health/'' [''/health/*'']"
    by (simp add: endsWith_star_def)
  moreover have "bypass_loop ''/health/live'' [''/health/*'']"
    by (simp add: endsWith_star_def)
  moreover have "\<not> bypass_loop ''/healthy'' [''/health/*'']"
    by (simp add: endsWith_star_def)
  moreover have "CF_ACCESS_BYPASS_PATHS e = None \<or> CF_ACCESS_BYPASS_PATHS e = Some []
        \<longrightarrow> \<not> shouldBypassAuth e p"
    by (auto simp: shouldBypassAuth_def bypassPaths_def)
  ultimately show ?thesis by simp
qed

theorem shouldBypassAuth_matches_spec_witness:
  "shouldBypassAuth ex_env ''/health/live''
   \<and> (\<exists>r\<in>set (bypassPaths ex_env). spec_rule_matches ''/health/live'' r)
   \<and> \<not> shouldBypassAuth (ex_env\<lparr>CF_ACCESS_BYPASS_PATHS := None\<rparr>) ''/health/live''"
proof -
  have a: "shouldBypassAuth ex_env ''/health/live''"
    by (simp add: ex_defs)
  have b: "CF_ACCESS_BYPASS_PATHS (ex_env\<lparr>CF_ACCESS_BYPASS_PATHS := None\<rparr>) = None"
    by simp
  from shouldBypassAuth_matches_spec [of ex_env "''/health/live''"] a
  have c: "\<exists>r\<in>set (bypassPaths ex_env). spec_rule_matches ''/health/live'' r" by blast
  from shouldBypassAuth_matches_spec [of "ex_env\<lparr>CF_ACCESS_BYPASS_PATHS := None\<rparr>" "''/health/live''"] b
  have d: "\<not> shouldBypassAuth (ex_env\<lparr>CF_ACCESS_BYPASS_PATHS := None\<rparr>) ''/health/live''" by blast
  from a c d show ?thesis by blast
qed

text \<open>
  Claim C6. Reordering the configured bypass rules never changes the outcome of
  \<open>shouldBypassAuth\<close>: two configurations whose rule lists are permutations of each
  other (equal as multisets) agree on every path.
\<close>

theorem shouldBypassAuth_order_irrelevant:
  "mset (bypassPaths e) = mset (bypassPaths e') \<Longrightarrow> shouldBypassAuth e p = shouldBypassAuth e' p"
proof -
  assume "mset (bypassPaths e) = mset (bypassPaths e')"
  then have "set (bypassPaths e) = set (bypassPaths e')"
    by (rule mset_eq_setD)
  then show ?thesis
    by (simp add: shouldBypassAuth_def bypass_loop_iff)
qed

theorem shouldBypassAuth_order_irrelevant_witness:
  "mset (bypassPaths (ex_env\<lparr>CF_ACCESS_BYPASS_PATHS := Some [''/a'', ''/health/*'']\<rparr>))
     = mset (bypassPaths (ex_env\<lparr>CF_ACCESS_BYPASS_PATHS := Some [''/health/*'', ''/a'']\<rparr>))
   \<and> shouldBypassAuth (ex_env\<lparr>CF_ACCESS_BYPASS_PATHS := Some [''/a'', ''/health/*'']\<rparr>) ''/health/x''
   \<and> shouldBypassAuth (ex_env\<lparr>CF_ACCESS_BYPASS_PATHS := Some [''/health/*'', ''/a'']\<rparr>) ''/health/x''"
proof -
  have h: "mset (bypassPaths (ex_env\<lparr>CF_ACCESS_BYPASS_PATHS := Some [''/a'', ''/health/*'']\<rparr>))
     = mset (bypassPaths (ex_env\<lparr>CF_ACCESS_BYPASS_PATHS := Some [''/health/*'', ''/a'']\<rparr>))"
    by (simp add: bypassPaths_def)
  have a: "shouldBypassAuth (ex_env\<lparr>CF_ACCESS_BYPASS_PATHS := Some [''/a'', ''/health/*'']\<rparr>) ''/health/x''"
    by (simp add: shouldBypassAuth_def bypassPaths_def endsWith_star_def)
  from shouldBypassAuth_order_irrelevant [OF h, of "''/health/x''"] a h show ?thesis by simp
qed

section \<open>The disabled gate\<close>

text \<open>
  Claim C7. When \<open>CF_ACCESS_ENABLED\<close> is false the middleware calls \<open>next()\<close> for every
  request, whatever its path and headers: the request is passed on as it came (no
  identity is assigned), the cache is untouched and no effect at all is performed (no
  path matching, no header is read, nothing is verified or fetched).
\<close>

theorem disabled_gate_is_inert:
  "\<not> CF_ACCESS_ENABLED e \<Longrightarrow>
   cfAccessMiddleware e w c req = \<lparr>decision = Next, req_out = req, cache_out = c, trace = []\<rparr>"
  by (simp add: cfAccessMiddleware_def)

theorem disabled_gate_is_inert_witness:
  "\<not> CF_ACCESS_ENABLED (ex_env\<lparr>CF_ACCESS_ENABLED := False\<rparr>)
   \<and> cfAccessMiddleware (ex_env\<lparr>CF_ACCESS_ENABLED := False\<rparr>) (down_world 0) initial_cache
        (ex_req ''/secure'' None None None)
      = \<lparr>decision = Next, req_out = ex_req ''/secure'' None None None,
         cache_out = initial_cache, trace = []\<rparr>"
proof -
  have h: "\<not> CF_ACCESS_ENABLED (ex_env\<lparr>CF_ACCESS_ENABLED := False\<rparr>)" by simp
  from disabled_gate_is_inert [OF h] h show ?thesis by blast
qed

section \<open>Properties of the key set cache\<close>

text \<open>
  Claim C3. A call of \<open>getCloudflareJWKS\<close> that finds a cached key set younger than
  one hour (3600000 ms) returns it, leaves the cache as it is and makes no network
  call; any other call makes exactly one \<open>fetch\<close>. The second statement is about the
  calls the program makes: its only caller, \<open>verifyCloudflareAccessToken\<close>, fails
  before asking for the key set when the team domain is not configured (third
  conjunct), so every call has one. Consequently a key set fetched at time \<open>T\<close> (the
  call at \<open>w\<close>) serves every later call at a time in \<open>[T, T + 3600000)\<close> from the
  cache \<open>c1\<close> that call left, with no network call and no change of the cache, and
  the first call at or after \<open>T + 3600000\<close>, which still finds \<open>c1\<close>, makes exactly
  one \<open>fetch\<close>.
\<close>

theorem jwks_cache_hit_or_single_fetch:
  "(json_truthy (cachedJWKS c) \<and> now w - jwksCacheTime c < 3600000
      \<longrightarrow> getCloudflareJWKS e w c = (Inr (cachedJWKS c), c, []))
   \<and> (\<not> (json_truthy (cachedJWKS c) \<and> now w - jwksCacheTime c < 3600000)
        \<and> str_truthy (CF_ACCESS_TEAM_DOMAIN e)
      \<longrightarrow> fetch_count (snd (snd (getCloudflareJWKS e w c))) = 1)
   \<and> (\<not> str_truthy (CF_ACCESS_TEAM_DOMAIN e)
      \<longrightarrow> (\<forall>token. verifyCloudflareAccessToken e w c token
                     = (Inl TeamDomainAndAudNotConfigured, c, [])))
   \<and> (\<forall>k c1 tr0 ws w'.
         getCloudflareJWKS e w c = (Inr k, c1, tr0) \<and> fetch_count tr0 = 1 \<and> json_truthy k
         \<and> (\<forall>v\<in>set ws. now w \<le> now v \<and> now v < now w + 3600000)
         \<and> now w + 3600000 \<le> now w'
      \<longrightarrow> successive_calls e ws c1 = (map (\<lambda>v. Inr k) ws, c1, [])
        \<and> fetch_count (snd (snd (getCloudflareJWKS e w' c1))) = 1)"
proof -
  have fresh: "cache_fresh v d \<longleftrightarrow> json_truthy (cachedJWKS d) \<and> now v - jwksCacheTime d < 3600000"
    for v d by (simp add: cache_fresh_def JWKS_CACHE_TTL_def)
  have a: "getCloudflareJWKS e w c = (Inr (cachedJWKS c), c, [])"
    if "json_truthy (cachedJWKS c) \<and> now w - jwksCacheTime c < 3600000"
    using that by (simp add: jwks_hit fresh)
  have b: "fetch_count (snd (snd (getCloudflareJWKS e w c))) = 1"
    if "\<not> (json_truthy (cachedJWKS c) \<and> now w - jwksCacheTime c < 3600000)"
      "str_truthy (CF_ACCESS_TEAM_DOMAIN e)"
    using that by (simp add: jwks_miss_count fresh)
  have c: "successive_calls e ws c1 = (map (\<lambda>v. Inr k) ws, c1, [])
        \<and> fetch_count (snd (snd (getCloudflareJWKS e w' c1))) = 1"
    if h: "getCloudflareJWKS e w c = (Inr k, c1, tr0)" "fetch_count tr0 = 1" "json_truthy k"
      "\<forall>v\<in>set ws. now w \<le> now v \<and> now v < now w + 3600000" "now w + 3600000 \<le> now w'"
    for k c1 tr0 ws w'
  proof -
    from jwks_fetched [OF h(1) h(2)]
    have c1: "c1 = \<lparr>cachedJWKS = k, jwksCacheTime = now w\<rparr>"
      and td: "str_truthy (CF_ACCESS_TEAM_DOMAIN e)" by simp_all
    have "\<forall>v\<in>set ws. now v - jwksCacheTime c1 < JWKS_CACHE_TTL"
      using h(4) by (auto simp: c1 JWKS_CACHE_TTL_def)
    with h(3) have "successive_calls e ws c1 = (map (\<lambda>v. Inr (cachedJWKS c1)) ws, c1, [])"
      by (intro successive_hits) (simp_all add: c1)
    moreover have "\<not> cache_fresh w' c1"
      using h(5) by (simp add: fresh c1)
    then have "fetch_count (snd (snd (getCloudflareJWKS e w' c1))) = 1"
      using td by (rule jwks_miss_count)
    ultimately show ?thesis by (simp add: c1)
  qed
  have d: "verifyCloudflareAccessToken e w c token = (Inl TeamDomainAndAudNotConfigured, c, [])"
    if "\<not> str_truthy (CF_ACCESS_TEAM_DOMAIN e)" for token
    using that by (simp add: verifyCloudflareAccessToken_def)
  from a b c d show ?thesis by blast
qed

theorem jwks_cache_hit_or_single_fetch_witness:
  "successive_calls ex_env [ex_world 1000, down_world 3600999]
       \<lparr>cachedJWKS = ex_jwks, jwksCacheTime = 1000\<rparr>
     = ([Inr ex_jwks, Inr ex_jwks], \<lparr>cachedJWKS = ex_jwks, jwksCacheTime = 1000\<rparr>, [])
   \<and> fetch_count (snd (snd (getCloudflareJWKS ex_env (down_world 3601000)
         \<lparr>cachedJWKS = ex_jwks, jwksCacheTime = 1000\<rparr>))) = 1"
proof -
  let ?tr = "[EvFetch (certs_url ''team''),
       EvLog Debug ''Successfully fetched and cached Cloudflare Access JWKS'' None]"
  have 1: "fetch_count ?tr = 1" by simp
  have 2: "json_truthy ex_jwks" by (simp add: ex_jwks_def)
  have 3: "\<forall>v\<in>set [ex_world 1000, down_world 3600999].
             now (ex_world 1000) \<le> now v \<and> now v < now (ex_world 1000) + 3600000"
    by (simp add: ex_world_def down_world_def)
  have 4: "now (ex_world 1000) + 3600000 \<le> now (down_world 3601000)"
    by (simp add: ex_world_def down_world_def)
  from jwks_cache_hit_or_single_fetch [of initial_cache "ex_world 1000" ex_env] ex_first_fetch 1 2 3 4
  have "successive_calls ex_env [ex_world 1000, down_world 3600999]
           \<lparr>cachedJWKS = ex_jwks, jwksCacheTime = 1000\<rparr>
         = (map (\<lambda>v. Inr ex_jwks) [ex_world 1000, down_world 3600999],
            \<lparr>cachedJWKS = ex_jwks, jwksCacheTime = 1000\<rparr>, [])
     \<and> fetch_count (snd (snd (getCloudflareJWKS ex_env (down_world 3601000)
         \<lparr>cachedJWKS = ex_jwks, jwksCacheTime = 1000\<rparr>))) = 1"
    by blast
  then show ?thesis by simp
qed

text \<open>
  Claim C4, amended. When the fetch fails in one of the ways the code detects (the
  promise rejects, the status is not 2xx, or the body is not JSON) the call throws the
  fetch error, which \<open>verifyCloudflareAccessToken\<close> passes on unchanged, and the cache
  keeps its key set and its timestamp; indeed no call that throws changes the cache.
  A stale entry (age at least one hour) is never served: such a call makes its one
  \<open>fetch\<close>, and a value it returns is the body of a 2xx response of that fetch.
\<close>

theorem jwks_fetch_failure_keeps_cache:
  "(\<forall>td. \<not> cache_fresh w c \<and> CF_ACCESS_TEAM_DOMAIN e = Some td \<and> td \<noteq> []
           \<and> fetch_fails (fetch w (certs_url td))
      \<longrightarrow> (\<exists>err tr. is_fetch_error err \<and> fetch_count tr = 1
             \<and> getCloudflareJWKS e w c = (Inl err, c, tr)
             \<and> (\<forall>token. str_truthy (CF_ACCESS_AUD e)
                   \<longrightarrow> verifyCloudflareAccessToken e w c token = (Inl err, c, tr))))
   \<and> (\<forall>err c' tr. getCloudflareJWKS e w c = (Inl err, c', tr) \<longrightarrow> c' = c)
   \<and> (3600000 \<le> now w - jwksCacheTime c \<and> str_truthy (CF_ACCESS_TEAM_DOMAIN e)
      \<longrightarrow> fetch_count (snd (snd (getCloudflareJWKS e w c))) = 1
        \<and> (\<forall>k c' tr. getCloudflareJWKS e w c = (Inr k, c', tr)
             \<longrightarrow> (\<exists>td st txt. CF_ACCESS_TEAM_DOMAIN e = Some td
                    \<and> fetch w (certs_url td) = FetchResponse st txt (Some k) \<and> response_ok st)))"
proof -
  have a: "\<exists>err tr. is_fetch_error err \<and> fetch_count tr = 1
             \<and> getCloudflareJWKS e w c = (Inl err, c, tr)
             \<and> (\<forall>token. str_truthy (CF_ACCESS_AUD e)
                   \<longrightarrow> verifyCloudflareAccessToken e w c token = (Inl err, c, tr))"
    if h: "\<not> cache_fresh w c" "CF_ACCESS_TEAM_DOMAIN e = Some td" "td \<noteq> []"
      "fetch_fails (fetch w (certs_url td))" for td
  proof -
    let ?tr = "[EvFetch (certs_url td), EvLog Error ''Failed to fetch Cloudflare Access JWKS'' None]"
    from jwks_fetch_failure [OF h]
    obtain err where e: "is_fetch_error err" "getCloudflareJWKS e w c = (Inl err, c, ?tr)"
      by blast
    have "verifyCloudflareAccessToken e w c token = (Inl err, c, ?tr)"
      if "str_truthy (CF_ACCESS_AUD e)" for token
      using that h(2,3) e(2)
      by (auto simp: verifyCloudflareAccessToken_def str_truthy_iff)
    moreover have "fetch_count ?tr = 1" by simp
    ultimately show ?thesis using e by blast
  qed
  have b: "c' = c" if "getCloudflareJWKS e w c = (Inl err, c', tr)" for err c' tr
    using that by (rule jwks_error_keeps_cache)
  have stale: "\<not> cache_fresh w c" if "3600000 \<le> now w - jwksCacheTime c"
    using that by (simp add: cache_fresh_def JWKS_CACHE_TTL_def)
  have c1: "fetch_count (snd (snd (getCloudflareJWKS e w c))) = 1"
    if "3600000 \<le> now w - jwksCacheTime c" "str_truthy (CF_ACCESS_TEAM_DOMAIN e)"
    using stale [OF that(1)] that(2) by (rule jwks_miss_count)
  have c2: "\<exists>td st txt. CF_ACCESS_TEAM_DOMAIN e = Some td
                    \<and> fetch w (certs_url td) = FetchResponse st txt (Some k) \<and> response_ok st"
    if "3600000 \<le> now w - jwksCacheTime c" "getCloudflareJWKS e w c = (Inr k, c', tr)" for k c' tr
    using jwks_success_from_network [OF stale [OF that(1)] that(2)] by blast
  from a b c1 c2 show ?thesis by blast
qed

theorem jwks_fetch_failure_keeps_cache_witness:
  "3600000 \<le> now (down_world 3601000) - jwksCacheTime \<lparr>cachedJWKS = ex_jwks, jwksCacheTime = 1000\<rparr>
   \<and> fetch_fails (fetch (down_world 3601000) (certs_url ''team''))
   \<and> (\<exists>err tr. is_fetch_error err \<and> fetch_count tr = 1
        \<and> getCloudflareJWKS ex_env (down_world 3601000) \<lparr>cachedJWKS = ex_jwks, jwksCacheTime = 1000\<rparr>
            = (Inl err, \<lparr>cachedJWKS = ex_jwks, jwksCacheTime = 1000\<rparr>, tr))"
proof -
  let ?c = "\<lparr>cachedJWKS = ex_jwks, jwksCacheTime = 1000\<rparr>"
  have 1: "\<not> cache_fresh (down_world 3601000) ?c"
    by (simp add: cache_fresh_def JWKS_CACHE_TTL_def down_world_def ex_world_def)
  have 2: "CF_ACCESS_TEAM_DOMAIN ex_env = Some ''team''" by (simp add: ex_env_def)
  have 3: "''team'' \<noteq> []" by simp
  have 4: "fetch_fails (fetch (down_world 3601000) (certs_url ''team''))"
    by (simp add: down_world_def response_ok_def)
  have 5: "3600000 \<le> now (down_world 3601000) - jwksCacheTime ?c"
    by (simp add: down_world_def ex_world_def)
  from jwks_fetch_failure_keeps_cache [of "down_world 3601000" ?c ex_env] 1 2 3 4
  have "\<exists>err tr. is_fetch_error err \<and> fetch_count tr = 1
        \<and> getCloudflareJWKS ex_env (down_world 3601000) ?c = (Inl err, ?c, tr)"
    by blast
  with 4 5 show ?thesis by blast
qed

text \<open>
  The claim as stated counts every malformed body as a failed fetch. The code casts
  the parsed body to a key set without looking at it (\<open>(await response.json()) as
  jose.JSONWebKeySet\<close>): a 2xx answer whose body is JSON and no key set, such as an
  error object or \<open>null\<close>, raises nothing, and it replaces the cached key set and the
  timestamp.
\<close>

theorem json_body_without_keys_is_cached:
  "response_ok 200
   \<and> fetch (answering_world 3601000 (JObject [(''error'', JString ''x'')])) (certs_url ''team'')
       = FetchResponse 200 ''OK'' (Some (JObject [(''error'', JString ''x'')]))
   \<and> getCloudflareJWKS ex_env (answering_world 3601000 (JObject [(''error'', JString ''x'')]))
         \<lparr>cachedJWKS = ex_jwks, jwksCacheTime = 1000\<rparr>
       = (Inr (JObject [(''error'', JString ''x'')]),
          \<lparr>cachedJWKS = JObject [(''error'', JString ''x'')], jwksCacheTime = 3601000\<rparr>,
          [EvFetch (certs_url ''team''),
           EvLog Debug ''Successfully fetched and cached Cloudflare Access JWKS'' None])
   \<and> \<lparr>cachedJWKS = JObject [(''error'', JString ''x'')], jwksCacheTime = 3601000\<rparr>
       \<noteq> \<lparr>cachedJWKS = ex_jwks, jwksCacheTime = 1000\<rparr>
   \<and> getCloudflareJWKS ex_env (answering_world 3601000 JNull)
         \<lparr>cachedJWKS = ex_jwks, jwksCacheTime = 1000\<rparr>
       = (Inr JNull, \<lparr>cachedJWKS = JNull, jwksCacheTime = 3601000\<rparr>,
          [EvFetch (certs_url ''team''),
           EvLog Debug ''Successfully fetched and cached Cloudflare Access JWKS'' None])"
proof -
  have stale: "\<not> cache_fresh (answering_world 3601000 b) \<lparr>cachedJWKS = ex_jwks, jwksCacheTime = 1000\<rparr>"
    for b
    by (simp add: cache_fresh_def JWKS_CACHE_TTL_def answering_world_def ex_world_def)
  have run: "getCloudflareJWKS ex_env (answering_world 3601000 b)
         \<lparr>cachedJWKS = ex_jwks, jwksCacheTime = 1000\<rparr>
       = (Inr b, \<lparr>cachedJWKS = b, jwksCacheTime = 3601000\<rparr>,
          [EvFetch (certs_url ''team''),
           EvLog Debug ''Successfully fetched and cached Cloudflare Access JWKS'' None])" for b
    using stale [of b]
    by (simp add: getCloudflareJWKS_def ex_env_def answering_world_def ex_world_def response_ok_def)
  have ok: "response_ok 200" by (simp add: response_ok_def)
  have ans: "fetch (answering_world 3601000 (JObject [(''error'', JString ''x'')])) (certs_url ''team'')
       = FetchResponse 200 ''OK'' (Some (JObject [(''error'', JString ''x'')]))"
    by (simp add: answering_world_def)
  have diff: "\<lparr>cachedJWKS = JObject [(''error'', JString ''x'')], jwksCacheTime = 3601000\<rparr>
       \<noteq> \<lparr>cachedJWKS = ex_jwks, jwksCacheTime = 1000\<rparr>"
    by simp
  from ok ans run diff show ?thesis by simp
qed

section \<open>The service token path\<close>

text \<open>
  Claim C1, amended. When the gate is enabled and the path is not bypassed, a request
  whose client-id and client-secret headers are both present and non-empty, and
  whose pair differs from the configured pair (or one configured value is absent), is
  answered with 403 \<open>Invalid service token credentials.\<close>: the request and the cache
  are unchanged, the assertion header is not read and nothing is verified or fetched,
  whatever the assertion header holds and whatever the verifier would say.
\<close>

theorem service_token_mismatch_denied:
  assumes "CF_ACCESS_ENABLED e" and "\<not> shouldBypassAuth e (path req)"
    and "get req CLIENT_ID = Some cid" and "cid \<noteq> []"
    and "get req CLIENT_SECRET = Some cs" and "cs \<noteq> []"
    and "CF_ACCESS_SERVICE_TOKEN_ID e \<noteq> Some cid \<or> CF_ACCESS_SERVICE_TOKEN_SECRET e \<noteq> Some cs"
  shows "cfAccessMiddleware e w c req =
     \<lparr>decision = Respond \<lparr>status = 403, success = False, error = ''Access denied'',
                          detail = ''Invalid service token credentials.''\<rparr>,
      req_out = req, cache_out = c,
      trace = [EvShouldBypass (path req), EvGetHeader CLIENT_ID, EvGetHeader CLIENT_SECRET,
               EvValidateServiceToken,
               EvLog Warn ''CF Access service token validation failed'' (ip_of req)]\<rparr>
   \<and> EvGetHeader JWT_ASSERTION \<notin> set (trace (cfAccessMiddleware e w c req))
   \<and> list_all (\<lambda>ev. \<not> verification_event ev) (trace (cfAccessMiddleware e w c req))"
proof -
  have "\<not> validateServiceToken e (Some cid) (Some cs)"
    using assms(7) by (rule validate_false)
  with assms have r: "cfAccessMiddleware e w c req =
     \<lparr>decision = deny ''Invalid service token credentials.'', req_out = req, cache_out = c,
      trace = [EvShouldBypass (path req), EvGetHeader CLIENT_ID, EvGetHeader CLIENT_SECRET,
               EvValidateServiceToken,
               EvLog Warn ''CF Access service token validation failed'' (ip_of req)]\<rparr>"
    by (simp add: mw_service_bad)
  have "EvGetHeader JWT_ASSERTION \<notin> set (trace (cfAccessMiddleware e w c req))"
    unfolding r by (simp add: CLIENT_ID_def CLIENT_SECRET_def JWT_ASSERTION_def)
  moreover have "list_all (\<lambda>ev. \<not> verification_event ev) (trace (cfAccessMiddleware e w c req))"
    unfolding r by simp
  ultimately show ?thesis
    unfolding r by (simp add: deny_def)
qed

theorem service_token_mismatch_denied_witness:
  "cfAccessMiddleware ex_env (ex_world 0) initial_cache
      (ex_req ''/secure'' (Some ''svc-id'') (Some ''wrong'') (Some ''good''))
    = \<lparr>decision = Respond \<lparr>status = 403, success = False, error = ''Access denied'',
                          detail = ''Invalid service token credentials.''\<rparr>,
      req_out = ex_req ''/secure'' (Some ''svc-id'') (Some ''wrong'') (Some ''good''),
      cache_out = initial_cache,
      trace = [EvShouldBypass ''/secure'', EvGetHeader CLIENT_ID, EvGetHeader CLIENT_SECRET,
               EvValidateServiceToken,
               EvLog Warn ''CF Access service token validation failed'' (Some ''203.0.113.7'')]\<rparr>"
proof -
  let ?r = "ex_req ''/secure'' (Some ''svc-id'') (Some ''wrong'') (Some ''good'')"
  have 1: "CF_ACCESS_ENABLED ex_env" by (simp add: ex_env_def)
  have 2: "\<not> shouldBypassAuth ex_env (path ?r)" using ex_not_bypassed by (simp add: ex_req_def)
  have 3: "get ?r CLIENT_ID = Some ''svc-id''" by (simp add: ex_req_def)
  have 4: "''svc-id'' \<noteq> []" by simp
  have 5: "get ?r CLIENT_SECRET = Some ''wrong''"
    by (simp add: ex_req_def CLIENT_ID_def CLIENT_SECRET_def)
  have 6: "''wrong'' \<noteq> []" by simp
  have 7: "CF_ACCESS_SERVICE_TOKEN_ID ex_env \<noteq> Some ''svc-id''
           \<or> CF_ACCESS_SERVICE_TOKEN_SECRET ex_env \<noteq> Some ''wrong''"
    by (simp add: ex_env_def)
  have 8: "ip_of ?r = Some ''203.0.113.7''" by (simp add: ip_of_def ex_req_def)
  have 9: "path ?r = ''/secure''" by (simp add: ex_req_def)
  from service_token_mismatch_denied [OF 1 2 3 4 5 6 7, of "ex_world 0" initial_cache]
  show ?thesis unfolding 8 9 by blast
qed

text \<open>
  The claim as stated speaks of headers that are present. The middleware tests
  \<open>cfAccessClientId && cfAccessClientSecret\<close>: a header present with the empty value
  is falsy, so the request below (empty client id, wrong secret, valid assertion)
  leaves the service token path, has its assertion verified, and is admitted.
\<close>

theorem empty_client_id_reaches_assertion:
  "get (ex_req ''/secure'' (Some []) (Some ''wrong'') (Some ''good'')) CLIENT_ID \<noteq> None
   \<and> get (ex_req ''/secure'' (Some []) (Some ''wrong'') (Some ''good'')) CLIENT_SECRET \<noteq> None
   \<and> CF_ACCESS_SERVICE_TOKEN_SECRET ex_env \<noteq> Some ''wrong''
   \<and> CF_ACCESS_ENABLED ex_env \<and> \<not> shouldBypassAuth ex_env ''/secure''
   \<and> decision (cfAccessMiddleware ex_env (ex_world 0) initial_cache
        (ex_req ''/secure'' (Some []) (Some ''wrong'') (Some ''good''))) = Next
   \<and> EvVerifyToken ''good'' \<in> set (trace (cfAccessMiddleware ex_env (ex_world 0) initial_cache
        (ex_req ''/secure'' (Some []) (Some ''wrong'') (Some ''good''))))"
proof -
  let ?r = "ex_req ''/secure'' (Some []) (Some ''wrong'') (Some ''good'')"
  have 1: "CF_ACCESS_ENABLED ex_env" by (simp add: ex_env_def)
  have 2: "\<not> shouldBypassAuth ex_env (path ?r)" using ex_not_bypassed by (simp add: ex_req_def)
  have 3: "\<not> (str_truthy (get ?r CLIENT_ID) \<and> str_truthy (get ?r CLIENT_SECRET))"
    by (simp add: ex_req_def)
  have 4: "get ?r JWT_ASSERTION = Some ''good''"
    by (simp add: ex_req_def CLIENT_ID_def CLIENT_SECRET_def JWT_ASSERTION_def)
  have 5: "''good'' \<noteq> []" by simp
  note r = mw_jwt_ok [OF 1 2 3 4 5 ex_verify_good]
  have "get ?r CLIENT_ID \<noteq> None" by (simp add: ex_req_def)
  moreover have "get ?r CLIENT_SECRET \<noteq> None"
    by (simp add: ex_req_def CLIENT_ID_def CLIENT_SECRET_def)
  moreover have "CF_ACCESS_SERVICE_TOKEN_SECRET ex_env \<noteq> Some ''wrong''"
    by (simp add: ex_env_def)
  moreover have "decision (cfAccessMiddleware ex_env (ex_world 0) initial_cache ?r) = Next"
    unfolding r by simp
  moreover have "EvVerifyToken ''good'' \<in> set (trace (cfAccessMiddleware ex_env (ex_world 0) initial_cache ?r))"
    unfolding r by simp
  ultimately show ?thesis using 1 ex_not_bypassed by blast
qed

text \<open>
  Claim C2, amended. The assertion path (reading the assertion header) is reached
  exactly when the gate is enabled, the path is not bypassed, and the client-id and
  client-secret headers are not both present and non-empty; every verification event
  (token verification, key fetch, \<open>jose\<close> call) happens on that path only. So a request
  with both service token headers non-empty never has its assertion inspected.
\<close>

theorem assertion_path_reached_iff:
  "(EvGetHeader JWT_ASSERTION \<in> set (trace (cfAccessMiddleware e w c req))
      \<longleftrightarrow> CF_ACCESS_ENABLED e \<and> \<not> shouldBypassAuth e (path req)
          \<and> \<not> (str_truthy (get req CLIENT_ID) \<and> str_truthy (get req CLIENT_SECRET)))
   \<and> (\<forall>ev \<in> set (trace (cfAccessMiddleware e w c req)). verification_event ev \<longrightarrow>
         CF_ACCESS_ENABLED e \<and> \<not> shouldBypassAuth e (path req)
          \<and> \<not> (str_truthy (get req CLIENT_ID) \<and> str_truthy (get req CLIENT_SECRET)))"
proof (cases rule: mw_cases [where e=e and req=req and w=w and c=c])
  case disabled
  then show ?thesis by (simp add: mw_disabled)
next
  case bypassed
  then show ?thesis by (simp add: mw_bypassed)
next
  case (service_ok cid cs)
  then show ?thesis by (simp add: mw_service_ok hdr_neq hdr_neq [symmetric])
next
  case (service_bad cid cs)
  then show ?thesis by (simp add: mw_service_bad hdr_neq hdr_neq [symmetric])
next
  case missing
  then show ?thesis by (simp add: mw_missing)
next
  case (jwt_ok token payload c' tr)
  then show ?thesis by (simp add: mw_jwt_ok)
next
  case (jwt_bad token err c' tr)
  then show ?thesis by (simp add: mw_jwt_bad)
qed

theorem assertion_path_reached_iff_witness:
  "str_truthy (get (ex_req ''/secure'' (Some ''svc-id'') (Some ''wrong'') (Some ''good'')) CLIENT_ID)
   \<and> str_truthy (get (ex_req ''/secure'' (Some ''svc-id'') (Some ''wrong'') (Some ''good'')) CLIENT_SECRET)
   \<and> EvGetHeader JWT_ASSERTION \<notin> set (trace (cfAccessMiddleware ex_env (ex_world 0) initial_cache
        (ex_req ''/secure'' (Some ''svc-id'') (Some ''wrong'') (Some ''good''))))
   \<and> list_all (\<lambda>ev. \<not> verification_event ev) (trace (cfAccessMiddleware ex_env (ex_world 0) initial_cache
        (ex_req ''/secure'' (Some ''svc-id'') (Some ''wrong'') (Some ''good''))))"
proof -
  let ?r = "ex_req ''/secure'' (Some ''svc-id'') (Some ''wrong'') (Some ''good'')"
  have 1: "str_truthy (get ?r CLIENT_ID)" by (simp add: ex_req_def)
  have 2: "str_truthy (get ?r CLIENT_SECRET)" by (simp add: ex_req_def hdr_neq [symmetric])
  from assertion_path_reached_iff [of ex_env "ex_world 0" initial_cache ?r] 1 2
  show ?thesis unfolding list_all_iff by blast
qed

text \<open>
  The claim as stated excludes the assertion path as soon as one of the two headers
  is present. With the client id alone the conjunction is false and the middleware
  falls back to the assertion, which is verified.
\<close>

theorem single_service_header_reaches_assertion:
  "get (ex_req ''/secure'' (Some ''svc-id'') None (Some ''good'')) CLIENT_ID = Some ''svc-id''
   \<and> EvGetHeader JWT_ASSERTION \<in> set (trace (cfAccessMiddleware ex_env (ex_world 0) initial_cache
        (ex_req ''/secure'' (Some ''svc-id'') None (Some ''good''))))
   \<and> EvVerifyToken ''good'' \<in> set (trace (cfAccessMiddleware ex_env (ex_world 0) initial_cache
        (ex_req ''/secure'' (Some ''svc-id'') None (Some ''good''))))
   \<and> decision (cfAccessMiddleware ex_env (ex_world 0) initial_cache
        (ex_req ''/secure'' (Some ''svc-id'') None (Some ''good''))) = Next"
proof -
  let ?r = "ex_req ''/secure'' (Some ''svc-id'') None (Some ''good'')"
  have 1: "CF_ACCESS_ENABLED ex_env" by (simp add: ex_env_def)
  have 2: "\<not> shouldBypassAuth ex_env (path ?r)" using ex_not_bypassed by (simp add: ex_req_def)
  have 3: "\<not> (str_truthy (get ?r CLIENT_ID) \<and> str_truthy (get ?r CLIENT_SECRET))"
    by (simp add: ex_req_def hdr_neq [symmetric])
  have 4: "get ?r JWT_ASSERTION = Some ''good''"
    by (simp add: ex_req_def hdr_neq [symmetric])
  have 5: "''good'' \<noteq> []" by simp
  note r = mw_jwt_ok [OF 1 2 3 4 5 ex_verify_good]
  have "get ?r CLIENT_ID = Some ''svc-id''" by (simp add: ex_req_def)
  then show ?thesis unfolding r by simp
qed

section \<open>The assertion path fails closed\<close>

text \<open>
  Claim C8. On the assertion path (gate enabled, path not bypassed, service token
  headers not both given) the request is admitted only if the assertion header is
  there, team domain and audience are configured, the key set was obtained and
  \<open>jose\<close> accepted the token. So if the assertion is missing, or the team domain or
  the audience is not configured, or the key fetch fails, or obtaining the key set
  throws, or \<open>jose\<close> rejects the token (signature, issuer, audience, expiry), the
  answer is 403 with \<open>success: false\<close>, and no identity is assigned.
\<close>

theorem assertion_path_fails_closed:
  assumes "CF_ACCESS_ENABLED e" and "\<not> shouldBypassAuth e (path req)"
    and "\<not> (str_truthy (get req CLIENT_ID) \<and> str_truthy (get req CLIENT_SECRET))"
  shows
   "(decision (cfAccessMiddleware e w c req) = Next \<longrightarrow>
       (\<exists>token td aud jwks c' tr payload.
           get req JWT_ASSERTION = Some token \<and> token \<noteq> []
         \<and> CF_ACCESS_TEAM_DOMAIN e = Some td \<and> td \<noteq> []
         \<and> CF_ACCESS_AUD e = Some aud \<and> aud \<noteq> []
         \<and> getCloudflareJWKS e w c = (Inr jwks, c', tr)
         \<and> jwtVerify w token jwks (issuer_of td) aud = Inr payload))
  \<and> (\<not> str_truthy (get req JWT_ASSERTION)
      \<or> \<not> str_truthy (CF_ACCESS_TEAM_DOMAIN e) \<or> \<not> str_truthy (CF_ACCESS_AUD e)
      \<or> (\<exists>td. CF_ACCESS_TEAM_DOMAIN e = Some td \<and> \<not> cache_fresh w c
               \<and> fetch_fails (fetch w (certs_url td)))
      \<or> (\<exists>err c' tr. getCloudflareJWKS e w c = (Inl err, c', tr))
      \<or> (\<exists>token td aud jwks c' tr msg.
             get req JWT_ASSERTION = Some token
           \<and> CF_ACCESS_TEAM_DOMAIN e = Some td \<and> CF_ACCESS_AUD e = Some aud
           \<and> getCloudflareJWKS e w c = (Inr jwks, c', tr)
           \<and> jwtVerify w token jwks (issuer_of td) aud = Inl msg)
     \<longrightarrow> (\<exists>d. decision (cfAccessMiddleware e w c req)
                 = Respond \<lparr>status = 403, success = False, error = ''Access denied'', detail = d\<rparr>)
         \<and> req_out (cfAccessMiddleware e w c req) = req
         \<and> attached (trace (cfAccessMiddleware e w c req)) = [])"
proof -
  let ?r = "cfAccessMiddleware e w c req"
  let ?ok = "\<exists>token td aud jwks c' tr payload.
           get req JWT_ASSERTION = Some token \<and> token \<noteq> []
         \<and> CF_ACCESS_TEAM_DOMAIN e = Some td \<and> td \<noteq> []
         \<and> CF_ACCESS_AUD e = Some aud \<and> aud \<noteq> []
         \<and> getCloudflareJWKS e w c = (Inr jwks, c', tr)
         \<and> jwtVerify w token jwks (issuer_of td) aud = Inr payload"
  let ?denied = "(\<exists>d. decision ?r = deny d) \<and> req_out ?r = req \<and> attached (trace ?r) = []"
  from assertion_path_outcome [OF assms, of w c]
  have alt: "?denied \<or> (decision ?r = Next \<and> ?ok)"
    by (blast dest: verify_success)
  then have a: "decision ?r = Next \<longrightarrow> ?ok"
    by (auto simp: deny_neq_Next)
  have b: "?denied" if "\<not> ?ok"
    using alt that by blast
  have n1: "\<not> ?ok" if "\<not> str_truthy (get req JWT_ASSERTION)"
    using that by (auto simp: str_truthy_iff)
  have n2: "\<not> ?ok" if "\<not> str_truthy (CF_ACCESS_TEAM_DOMAIN e) \<or> \<not> str_truthy (CF_ACCESS_AUD e)"
    using that by (auto simp: str_truthy_iff)
  have n3: "\<not> ?ok" if "CF_ACCESS_TEAM_DOMAIN e = Some td" "\<not> cache_fresh w c"
      "fetch_fails (fetch w (certs_url td))" for td
  proof (cases "td = []")
    case True
    with that(1) show ?thesis by auto
  next
    case False
    from jwks_fetch_failure [OF that(2) that(1) False that(3)]
    obtain err tr where "getCloudflareJWKS e w c = (Inl err, c, tr)" by blast
    then show ?thesis by auto
  qed
  have n4: "\<not> ?ok" if "getCloudflareJWKS e w c = (Inl err, c', tr)" for err c' tr
    using that by auto
  have n5: "\<not> ?ok" if "get req JWT_ASSERTION = Some token"
      "CF_ACCESS_TEAM_DOMAIN e = Some td" "CF_ACCESS_AUD e = Some aud"
      "getCloudflareJWKS e w c = (Inr jwks, c', tr)"
      "jwtVerify w token jwks (issuer_of td) aud = Inl msg" for token td aud jwks c' tr msg
    using that by auto
  from a b n1 n2 n3 n4 n5 show ?thesis
    unfolding deny_def by blast
qed

theorem assertion_path_fails_closed_witness:
  "CF_ACCESS_ENABLED ex_env
   \<and> fetch_fails (fetch (down_world 0) (certs_url ''team''))
   \<and> (\<exists>d. decision (cfAccessMiddleware ex_env (down_world 0) initial_cache
               (ex_req ''/secure'' None None (Some ''good'')))
            = Respond \<lparr>status = 403, success = False, error = ''Access denied'', detail = d\<rparr>)
   \<and> req_out (cfAccessMiddleware ex_env (down_world 0) initial_cache
               (ex_req ''/secure'' None None (Some ''good'')))
        = ex_req ''/secure'' None None (Some ''good'')"
proof -
  let ?r = "ex_req ''/secure'' None None (Some ''good'')"
  have 1: "CF_ACCESS_ENABLED ex_env" by (simp add: ex_env_def)
  have 2: "\<not> shouldBypassAuth ex_env (path ?r)" using ex_not_bypassed by (simp add: ex_req_def)
  have 3: "\<not> (str_truthy (get ?r CLIENT_ID) \<and> str_truthy (get ?r CLIENT_SECRET))"
    by (simp add: ex_req_def)
  have 4: "CF_ACCESS_TEAM_DOMAIN ex_env = Some ''team''" by (simp add: ex_env_def)
  have 5: "\<not> cache_fresh (down_world 0) initial_cache"
    by (simp add: cache_fresh_def initial_cache_def)
  have 6: "fetch_fails (fetch (down_world 0) (certs_url ''team''))"
    by (simp add: down_world_def response_ok_def)
  from assertion_path_fails_closed [OF 1 2 3, of "down_world 0" initial_cache] 4 5 6
  have "(\<exists>d. decision (cfAccessMiddleware ex_env (down_world 0) initial_cache ?r)
            = Respond \<lparr>status = 403, success = False, error = ''Access denied'', detail = d\<rparr>)
     \<and> req_out (cfAccessMiddleware ex_env (down_world 0) initial_cache ?r) = ?r"
    by blast
  with 1 6 show ?thesis by blast
qed

section \<open>The identity annotation\<close>

text \<open>
  Claim C9. The middleware assigns \<open>req.cfAccessIdentity\<close> exactly when it admits the
  request on a credentialed path (gate enabled, path not bypassed, \<open>next()\<close> called).
  With the gate disabled or the path bypassed the request is passed on unchanged;
  whenever nothing is assigned the request is unchanged. What is assigned is assigned
  once and is the new value of the field: the service token identity with the client
  id of the request on the service token path, and on the assertion path the \<open>jwt\<close>
  identity with the \<open>email\<close>, \<open>sub\<close>, \<open>iat\<close> and \<open>exp\<close> claims of the verified payload.
\<close>

theorem identity_attached_iff_credentialed_admission:
  "(attached (trace (cfAccessMiddleware e w c req)) \<noteq> []
      \<longleftrightarrow> decision (cfAccessMiddleware e w c req) = Next
          \<and> CF_ACCESS_ENABLED e \<and> \<not> shouldBypassAuth e (path req))
   \<and> (\<not> CF_ACCESS_ENABLED e \<or> shouldBypassAuth e (path req)
        \<longrightarrow> decision (cfAccessMiddleware e w c req) = Next
          \<and> req_out (cfAccessMiddleware e w c req) = req
          \<and> attached (trace (cfAccessMiddleware e w c req)) = [])
   \<and> (attached (trace (cfAccessMiddleware e w c req)) = []
        \<longrightarrow> req_out (cfAccessMiddleware e w c req) = req)
   \<and> (\<forall>i. i \<in> set (attached (trace (cfAccessMiddleware e w c req))) \<longrightarrow>
         attached (trace (cfAccessMiddleware e w c req)) = [i]
       \<and> req_out (cfAccessMiddleware e w c req) = req\<lparr>cfAccessIdentity := Some i\<rparr>
       \<and> (if str_truthy (get req CLIENT_ID) \<and> str_truthy (get req CLIENT_SECRET)
          then \<exists>cid. get req CLIENT_ID = Some cid \<and> i = ServiceTokenIdentity cid
          else \<exists>token payload c' tr.
                 get req JWT_ASSERTION = Some token
               \<and> verifyCloudflareAccessToken e w c token = (Inr payload, c', tr)
               \<and> i = JwtIdentity (map_of payload ''email'') (map_of payload ''sub'')
                        (map_of payload ''iat'') (map_of payload ''exp'')))"
proof (cases rule: mw_cases [where e=e and req=req and w=w and c=c])
  case disabled
  then show ?thesis by (simp add: mw_disabled)
next
  case bypassed
  then show ?thesis by (simp add: mw_bypassed)
next
  case (service_ok cid cs)
  then show ?thesis by (simp add: mw_service_ok)
next
  case (service_bad cid cs)
  then show ?thesis by (simp add: mw_service_bad deny_neq_Next)
next
  case missing
  then show ?thesis by (simp add: mw_missing deny_neq_Next)
next
  case (jwt_ok token payload c' tr)
  moreover have "attached tr = []"
    using verify_trace_attached [of e w c token] jwt_ok(6) by simp
  ultimately show ?thesis
    by (simp add: mw_jwt_ok attached_append jwt_identity_def)
next
  case (jwt_bad token err c' tr)
  moreover have "attached tr = []"
    using verify_trace_attached [of e w c token] jwt_bad(6) by simp
  ultimately show ?thesis
    by (simp add: mw_jwt_bad attached_append deny_neq_Next)
qed

theorem identity_attached_iff_credentialed_admission_witness:
  "shouldBypassAuth ex_env (path (ex_req ''/health/live'' None None None))
   \<and> req_out (cfAccessMiddleware ex_env (ex_world 0) initial_cache (ex_req ''/health/live'' None None None))
       = ex_req ''/health/live'' None None None
   \<and> attached (trace (cfAccessMiddleware ex_env (ex_world 0) initial_cache
        (ex_req ''/health/live'' None None None))) = []
   \<and> ServiceTokenIdentity ''svc-id'' \<in> set (attached (trace (cfAccessMiddleware ex_env (ex_world 0)
        initial_cache (ex_req ''/secure'' (Some ''svc-id'') (Some ''svc-secret'') None))))
   \<and> req_out (cfAccessMiddleware ex_env (ex_world 0) initial_cache
        (ex_req ''/secure'' (Some ''svc-id'') (Some ''svc-secret'') None))
       = (ex_req ''/secure'' (Some ''svc-id'') (Some ''svc-secret'') None)
           \<lparr>cfAccessIdentity := Some (ServiceTokenIdentity ''svc-id'')\<rparr>"
proof -
  let ?b = "ex_req ''/health/live'' None None None"
  let ?s = "ex_req ''/secure'' (Some ''svc-id'') (Some ''svc-secret'') None"
  have 1: "shouldBypassAuth ex_env (path ?b)"
    by (simp add: ex_defs)
  have 2: "ServiceTokenIdentity ''svc-id'' \<in> set (attached (trace (cfAccessMiddleware ex_env (ex_world 0)
        initial_cache ?s)))"
    unfolding ex_service_ok by simp
  from identity_attached_iff_credentialed_admission [of ex_env "ex_world 0" initial_cache ?b] 1
  have 3: "req_out (cfAccessMiddleware ex_env (ex_world 0) initial_cache ?b) = ?b
     \<and> attached (trace (cfAccessMiddleware ex_env (ex_world 0) initial_cache ?b)) = []"
    by blast
  from identity_attached_iff_credentialed_admission [of ex_env "ex_world 0" initial_cache ?s] 2
  have 4: "req_out (cfAccessMiddleware ex_env (ex_world 0) initial_cache ?s)
       = ?s\<lparr>cfAccessIdentity := Some (ServiceTokenIdentity ''svc-id'')\<rparr>"
    by blast
  from 1 2 3 4 show ?thesis by blast
qed

section \<open>Non-interference of the other request attributes\<close>

text \<open>
  Claim C10. Two requests with the same path and the same client-id, client-secret
  and assertion headers get the same decision, the same identity assignment and leave
  the same cache, for the same configuration, world and cache, whatever else differs
  between them (other headers, the addresses that are logged, a previous identity
  field, any further attribute).
\<close>

theorem decision_depends_only_on_credentials:
  fixes r1 :: "'a request_scheme" and r2 :: "'b request_scheme"
  assumes "path r1 = path r2"
    and "get r1 CLIENT_ID = get r2 CLIENT_ID"
    and "get r1 CLIENT_SECRET = get r2 CLIENT_SECRET"
    and "get r1 JWT_ASSERTION = get r2 JWT_ASSERTION"
  shows "decision (cfAccessMiddleware e w c r1) = decision (cfAccessMiddleware e w c r2)
     \<and> attached (trace (cfAccessMiddleware e w c r1)) = attached (trace (cfAccessMiddleware e w c r2))
     \<and> cache_out (cfAccessMiddleware e w c r1) = cache_out (cfAccessMiddleware e w c r2)"
proof (cases rule: mw_cases [where e=e and req=r2 and w=w and c=c])
  case disabled
  then show ?thesis by (simp add: mw_disabled)
next
  case bypassed
  then show ?thesis using assms by (simp add: mw_bypassed)
next
  case (service_ok cid cs)
  then show ?thesis using assms by (simp add: mw_service_ok)
next
  case (service_bad cid cs)
  then show ?thesis using assms by (simp add: mw_service_bad)
next
  case missing
  then show ?thesis using assms by (simp add: mw_missing)
next
  case (jwt_ok token payload c' tr)
  then show ?thesis using assms by (simp add: mw_jwt_ok attached_append)
next
  case (jwt_bad token err c' tr)
  then show ?thesis using assms by (simp add: mw_jwt_bad attached_append)
qed

theorem decision_depends_only_on_credentials_witness:
  "get noisy_req ''User-Agent'' \<noteq> get (ex_req ''/secure'' None None (Some ''good'')) ''User-Agent''
   \<and> requestIp noisy_req \<noteq> requestIp (ex_req ''/secure'' None None (Some ''good''))
   \<and> decision (cfAccessMiddleware ex_env (ex_world 0) initial_cache noisy_req)
       = decision (cfAccessMiddleware ex_env (ex_world 0) initial_cache
           (ex_req ''/secure'' None None (Some ''good'')))
   \<and> attached (trace (cfAccessMiddleware ex_env (ex_world 0) initial_cache noisy_req))
       = attached (trace (cfAccessMiddleware ex_env (ex_world 0) initial_cache
           (ex_req ''/secure'' None None (Some ''good''))))"
proof -
  let ?r = "ex_req ''/secure'' None None (Some ''good'')"
  have 1: "path noisy_req = path ?r" by (simp add: noisy_req_def ex_req_def)
  have 2: "get noisy_req CLIENT_ID = get ?r CLIENT_ID"
    by (simp add: noisy_req_def ex_req_def CLIENT_ID_def JWT_ASSERTION_def)
  have 3: "get noisy_req CLIENT_SECRET = get ?r CLIENT_SECRET"
    by (simp add: noisy_req_def ex_req_def CLIENT_ID_def CLIENT_SECRET_def JWT_ASSERTION_def)
  have 4: "get noisy_req JWT_ASSERTION = get ?r JWT_ASSERTION"
    by (simp add: noisy_req_def ex_req_def hdr_neq [symmetric])
  have 5: "get noisy_req ''User-Agent'' \<noteq> get ?r ''User-Agent''"
    by (simp add: noisy_req_def ex_req_def CLIENT_ID_def CLIENT_SECRET_def JWT_ASSERTION_def)
  have 6: "requestIp noisy_req \<noteq> requestIp ?r"
    by (simp add: noisy_req_def ex_req_def)
  from decision_depends_only_on_credentials [OF 1 2 3 4, of ex_env "ex_world 0" initial_cache] 5 6
  show ?thesis by blast
qed

end
